theory Spec2Isabelle
  imports Complex_Main "HOL-Library.Multiset"
begin

section \<open>Data model\<close>

text \<open>
  The Python exceptions that the modelled code can raise. A function that can raise
  returns \<open>error + 'a\<close>, with \<open>Inl\<close> for the exception.
  \<^item> \<open>AttributeError\<close>: reading \<open>self.doc_collection\<close> or \<open>self.model\<close> before it is assigned;
  \<^item> \<open>UnboundLocalError\<close>: reading the local \<open>chunks_with_pages\<close> of \<open>process_pdf\<close> when
    the loop body never ran;
  \<^item> \<open>RequestException\<close>: \<open>requests.get\<close> itself failing (no schema, no connection);
  \<^item> \<open>HTTPError\<close>: raised by \<open>response.raise_for_status()\<close>, with the status code;
  \<^item> \<open>FileDataError\<close>: \<open>fitz.open\<close> rejecting the byte stream;
  \<^item> \<open>PredictError\<close>: the chat completion call failing.
\<close>

datatype error =
    AttributeError
  | UnboundLocalError
  | RequestException
  | HTTPError nat
  | FileDataError
  | PredictError

type_synonym bytes = "char list"

text \<open>What \<open>requests.get\<close> does: it raises, or returns a response with a status code and a body.\<close>

datatype http_outcome = RequestFailed | Response nat bytes

text \<open>The dictionary \<open>{"text": ..., "page": ..., "url": ...}\<close> built by \<open>chunk_text\<close>.\<close>

record chunk_record =
  doc_text :: string
  doc_page :: nat
  doc_url :: string

text \<open>A search result is a stored chunk together with its \<open>score\<close>.\<close>

record search_result = chunk_record +
  score :: real

text \<open>The \<open>Model\<close> built by \<open>initialize_model\<close>.\<close>

record Model =
  model_identifier :: string
  encoder_shape :: nat
  predict_method :: string
  batch_predict :: bool

record Listener =
  select :: string
  key :: string
  listener_model :: Model
  max_chunk_size :: nat

datatype Component =
    VectorIndex string Listener
  | OpenAIChatCompletion string string

fun component_identifier :: "Component \<Rightarrow> string" where
  "component_identifier (VectorIndex i l) = i"
| "component_identifier (OpenAIChatCompletion i p) = i"

text \<open>
  The state of the database: the components registered with \<open>db.add\<close>, in the order of
  the calls, and the documents of each collection, in insertion order.
\<close>

record Datalayer =
  components :: "Component list"
  collections :: "string \<rightharpoonup> chunk_record list"

definition db_add :: "Component \<Rightarrow> Datalayer \<Rightarrow> Datalayer" where
  "db_add c d = d\<lparr>components := components d @ [c]\<rparr>"

definition find_all :: "Datalayer \<Rightarrow> string \<Rightarrow> chunk_record list" where
  "find_all d c = (case collections d c of None \<Rightarrow> [] | Some ds \<Rightarrow> ds)"

definition insert_many :: "string \<Rightarrow> chunk_record list \<Rightarrow> Datalayer \<Rightarrow> Datalayer" where
  "insert_many c docs d = d\<lparr>collections := (collections d)(c \<mapsto> find_all d c @ docs)\<rparr>"

text \<open>
  The collaborators outside the repository, taken as parameters:
  \<^item> \<open>superduper\<close>: connecting to the database (URI, artifact store);
  \<^item> \<open>requests_get\<close>: the HTTP GET of a URL;
  \<^item> \<open>fitz_open\<close>: opening a byte stream as a PDF, giving the text of each page in
    order, or \<open>None\<close> when the stream is rejected;
  \<^item> \<open>create_documents\<close>: the semantic chunker splitting one text into chunk texts;
  \<^item> \<open>like_find\<close>: the store's vector search
    \<open>collection.like(Document({'text': q}), vector_index=i, n=n).find()\<close>;
  \<^item> \<open>chat_predict\<close>: the chat completion, from the prompt, the question and the context texts.
\<close>

record env =
  superduper :: "string \<Rightarrow> string \<Rightarrow> Datalayer"
  requests_get :: "string \<Rightarrow> http_outcome"
  fitz_open :: "bytes \<Rightarrow> string list option"
  create_documents :: "string \<Rightarrow> string list"
  like_find :: "Datalayer \<Rightarrow> string \<Rightarrow> string \<Rightarrow> string \<Rightarrow> nat \<Rightarrow> search_result list"
  chat_predict :: "string \<Rightarrow> string \<Rightarrow> string list \<Rightarrow> error + string"

text \<open>
  The handler object. \<open>doc_collection\<close> and \<open>model\<close> are not assigned by \<open>__init__\<close>:
  \<open>None\<close> is the attribute not existing yet.
\<close>

record PDFDocumentHandler =
  mongodb_uri :: string
  artifact_store_path :: string
  db :: Datalayer
  text_splitter :: "string \<Rightarrow> string list"
  doc_collection :: "string option"
  model :: "Model option"

section \<open>rag\_superduperdb.py\<close>

definition initialize_database :: "env \<Rightarrow> string \<Rightarrow> string \<Rightarrow> Datalayer" where
  "initialize_database e uri path = superduper e uri (''filesystem://'' @ path)"

definition init :: "env \<Rightarrow> string \<Rightarrow> string \<Rightarrow> PDFDocumentHandler" where
  "init e uri path =
     \<lparr>mongodb_uri = uri,
      artifact_store_path = path,
      db = initialize_database e uri path,
      text_splitter = create_documents e,
      doc_collection = None,
      model = None\<rparr>"

definition initialize_model :: Model where
  "initialize_model =
     \<lparr>model_identifier = ''all-MiniLM-L6-v2'',
      encoder_shape = 384,
      predict_method = ''encode'',
      batch_predict = True\<rparr>"

definition ascii_lowercase :: string where
  "ascii_lowercase = ''abcdefghijklmnopqrstuvwxyz''"

text \<open>
  \<open>random.choices(population, k=k)\<close> is \<open>[population[floor(random() * n)] for i in range(k)]\<close>
  with \<open>n = len(population)\<close>. The random source is the parameter \<open>rnd\<close>: \<open>rnd i\<close> is the
  index \<open>floor(random() * n)\<close> of the \<open>i\<close>-th draw, a number below \<open>n\<close>.
\<close>

definition random_choices :: "'a list \<Rightarrow> nat \<Rightarrow> (nat \<Rightarrow> nat) \<Rightarrow> 'a list" where
  "random_choices population k rnd = map (\<lambda>i. population ! rnd i) [0..<k]"

definition set_collection_name :: "(nat \<Rightarrow> nat) \<Rightarrow> PDFDocumentHandler \<Rightarrow> PDFDocumentHandler" where
  "set_collection_name rnd h =
     (let collection_name = random_choices ascii_lowercase 7 rnd
      in h\<lparr>doc_collection := Some collection_name\<rparr>)"

definition vector_index_identifier :: "Model \<Rightarrow> string" where
  "vector_index_identifier m = ''pymongo-docs-'' @ model_identifier m"

definition add_vector_index :: "PDFDocumentHandler \<Rightarrow> error + PDFDocumentHandler" where
  "add_vector_index h =
     (case model h of
        None \<Rightarrow> Inl AttributeError
      | Some m \<Rightarrow>
          (case doc_collection h of
             None \<Rightarrow> Inl AttributeError
           | Some c \<Rightarrow>
               Inr (h\<lparr>db := db_add
                      (VectorIndex (vector_index_identifier m)
                         \<lparr>select = c, key = ''text'', listener_model = m, max_chunk_size = 1000\<rparr>)
                      (db h)\<rparr>)))"

text \<open>
  \<open>response.raise_for_status()\<close> raises for the status codes 4XX and 5XX, as the comment
  in the source says, and for no other.
\<close>

definition raise_for_status :: "nat \<Rightarrow> error + unit" where
  "raise_for_status status_code =
     (if 400 \<le> status_code \<and> status_code < 600 then Inl (HTTPError status_code) else Inr ())"

definition download_pdf :: "env \<Rightarrow> string \<Rightarrow> error + bytes" where
  "download_pdf e pdf_url =
     (case requests_get e pdf_url of
        RequestFailed \<Rightarrow> Inl RequestException
      | Response status_code content \<Rightarrow>
          (case raise_for_status status_code of
             Inl err \<Rightarrow> Inl err
           | Inr u \<Rightarrow> Inr content))"

text \<open>The loop over \<open>enumerate(doc, start=1)\<close>, appending \<open>(text, page_num)\<close>.\<close>

fun extract_pages :: "(nat \<times> string) list \<Rightarrow> (string \<times> nat) list \<Rightarrow> (string \<times> nat) list" where
  "extract_pages [] all_text_with_markers = all_text_with_markers"
| "extract_pages ((page_num, page) # rest) all_text_with_markers =
     extract_pages rest (all_text_with_markers @ [(page, page_num)])"

definition extract_text_with_page_numbers_from_url ::
  "env \<Rightarrow> string \<Rightarrow> error + (string \<times> nat) list" where
  "extract_text_with_page_numbers_from_url e pdf_url =
     (case download_pdf e pdf_url of
        Inl err \<Rightarrow> Inl err
      | Inr pdf_bytes \<Rightarrow>
          (case fitz_open e pdf_bytes of
             None \<Rightarrow> Inl FileDataError
           | Some doc \<Rightarrow> Inr (extract_pages (List.enumerate 1 doc) [])))"

text \<open>The two nested loops of \<open>chunk_text\<close>, appending \<open>(chunk, page_num)\<close>.\<close>

fun chunk_pages ::
  "(string \<Rightarrow> string list) \<Rightarrow> (string \<times> nat) list \<Rightarrow> (string \<times> nat) list \<Rightarrow> (string \<times> nat) list" where
  "chunk_pages splitter [] chunks_with_pages = chunks_with_pages"
| "chunk_pages splitter ((txt, page_num) # rest) chunks_with_pages =
     chunk_pages splitter rest
       (chunks_with_pages @ map (\<lambda>chunk. (chunk, page_num)) (splitter txt))"

definition chunk_text ::
  "PDFDocumentHandler \<Rightarrow> (string \<times> nat) list \<Rightarrow> string \<Rightarrow> chunk_record list" where
  "chunk_text h all_text_with_markers url =
     map (\<lambda>chunk. \<lparr>doc_text = fst chunk, doc_page = snd chunk, doc_url = url\<rparr>)
       (chunk_pages (text_splitter h) all_text_with_markers [])"

definition insert_documents ::
  "chunk_record list \<Rightarrow> PDFDocumentHandler \<Rightarrow> error + PDFDocumentHandler" where
  "insert_documents chunks_with_pages h =
     (case doc_collection h of
        None \<Rightarrow> Inl AttributeError
      | Some c \<Rightarrow> Inr (h\<lparr>db := insert_many c chunks_with_pages (db h)\<rparr>))"

text \<open>
  The loop of \<open>process_pdf\<close>. Its state is the local variable \<open>chunks_with_pages\<close>, which
  is unbound (\<open>None\<close>) until the body has run once; every iteration assigns it anew.
\<close>

fun process_urls ::
  "env \<Rightarrow> PDFDocumentHandler \<Rightarrow> string list \<Rightarrow> chunk_record list option \<Rightarrow>
   error + chunk_record list option" where
  "process_urls e h [] chunks_with_pages = Inr chunks_with_pages"
| "process_urls e h (pdf_url # rest) chunks_with_pages =
     (case extract_text_with_page_numbers_from_url e pdf_url of
        Inl err \<Rightarrow> Inl err
      | Inr all_text_with_markers \<Rightarrow>
          process_urls e h rest (Some (chunk_text h all_text_with_markers pdf_url)))"

text \<open>
  \<open>process_pdf\<close> returns the exception, if any, and the handler as the call leaves it:
  the assignments made before an exception stay.
\<close>

definition process_pdf ::
  "env \<Rightarrow> (nat \<Rightarrow> nat) \<Rightarrow> string list \<Rightarrow> PDFDocumentHandler \<Rightarrow>
   (error + unit) \<times> PDFDocumentHandler" where
  "process_pdf e rnd pdf_urls h =
     (let h1 = set_collection_name rnd h;
          h2 = h1\<lparr>model := Some initialize_model\<rparr>
      in case add_vector_index h2 of
           Inl err \<Rightarrow> (Inl err, h2)
         | Inr h3 \<Rightarrow>
             (case process_urls e h3 pdf_urls None of
                Inl err \<Rightarrow> (Inl err, h3)
              | Inr None \<Rightarrow> (Inl UnboundLocalError, h3)
              | Inr (Some chunks_with_pages) \<Rightarrow>
                  (case insert_documents chunks_with_pages h3 of
                     Inl err \<Rightarrow> (Inl err, h3)
                   | Inr h4 \<Rightarrow> (Inr (), h4))))"

text \<open>\<open>sorted(result, key=lambda r: -r['score'])\<close>: a stable sort on the negated score.\<close>

definition query_documents ::
  "env \<Rightarrow> PDFDocumentHandler \<Rightarrow> string \<Rightarrow> nat \<Rightarrow> error + search_result list" where
  "query_documents e h search_term num_results =
     (case doc_collection h of
        None \<Rightarrow> Inl AttributeError
      | Some c \<Rightarrow>
          (case model h of
             None \<Rightarrow> Inl AttributeError
           | Some m \<Rightarrow>
               Inr (sort_key (\<lambda>r. - score r)
                      (like_find e (db h) c (vector_index_identifier m) search_term num_results))))"

text \<open>The default value of the parameter \<open>num_results\<close> of \<open>query_documents\<close>.\<close>

definition query_documents_default_num_results :: nat where
  "query_documents_default_num_results = 1"

definition get_relevant_docs ::
  "env \<Rightarrow> (nat \<Rightarrow> nat) \<Rightarrow> string list \<Rightarrow> string \<Rightarrow> PDFDocumentHandler \<Rightarrow>
   (error + search_result list) \<times> PDFDocumentHandler" where
  "get_relevant_docs e rnd pdf_list search_term h =
     (case process_pdf e rnd pdf_list h of
        (Inl err, h') \<Rightarrow> (Inl err, h')
      | (Inr u, h') \<Rightarrow>
          (query_documents e h' search_term query_documents_default_num_results, h'))"

definition get_db :: "PDFDocumentHandler \<Rightarrow> Datalayer" where
  "get_db h = db h"

definition get_collection :: "PDFDocumentHandler \<Rightarrow> error + string" where
  "get_collection h = (case doc_collection h of None \<Rightarrow> Inl AttributeError | Some c \<Rightarrow> Inr c)"

definition get_model :: "PDFDocumentHandler \<Rightarrow> error + Model" where
  "get_model h = (case model h of None \<Rightarrow> Inl AttributeError | Some m \<Rightarrow> Inr m)"

section \<open>ask\_llm.py\<close>

text \<open>\<open>s.split(sep)\<close> for a separator of one character: the result is never empty.\<close>

fun str_split :: "char \<Rightarrow> string \<Rightarrow> string list" where
  "str_split sep [] = [[]]"
| "str_split sep (c # cs) =
     (if c = sep then [] # str_split sep cs
      else (case str_split sep cs of
              [] \<Rightarrow> [[c]]
            | w # ws \<Rightarrow> (c # w) # ws))"

text \<open>\<open>sep.join(xs)\<close>.\<close>

fun str_join :: "string \<Rightarrow> string list \<Rightarrow> string" where
  "str_join sep [] = []"
| "str_join sep [x] = x"
| "str_join sep (x # y # ys) = x @ sep @ str_join sep (y # ys)"

text \<open>The decimal digits of a number, as an f-string prints it.\<close>

fun str_nat :: "nat \<Rightarrow> string" where
  "str_nat n =
     (if n < 10 then [''0123456789'' ! n]
      else str_nat (n div 10) @ [''0123456789'' ! (n mod 10)])"

definition newline :: string where
  "newline = [CHR 0x0A]"

definition prompt :: string where
  "prompt =
     ''Use the following context and answer this question about context'' @ newline @
     ''Do not use any other information you might have learned about other python packages'' @ newline @
     ''Only base your answer on the code snippets retrieved and provide a very concise answer'' @ newline @
     ''{context}'' @ newline @ newline @
     ''Here'' @ [CHR 0x27] @ ''s the question:'' @ newline"

text \<open>
  \<open>get_answer_from_pdf\<close> works on the module's one \<open>handler\<close>, passed here and returned as
  the call leaves it. The search that gives \<open>sources\<close> is the \<open>context_select\<close> of
  \<open>db_instance.predict\<close>, with \<open>num_results = 5\<close>; the result of \<open>get_relevant_docs\<close> is
  not used.
\<close>

definition get_answer_from_pdf ::
  "env \<Rightarrow> (nat \<Rightarrow> nat) \<Rightarrow> PDFDocumentHandler \<Rightarrow> string list \<Rightarrow> string \<Rightarrow>
   (error + string \<times> string \<times> string \<times> string) \<times> PDFDocumentHandler" where
  "get_answer_from_pdf e rnd handler pdf_path question =
     (case get_relevant_docs e rnd pdf_path question handler of
        (Inl err, h) \<Rightarrow> (Inl err, h)
      | (Inr relevant_docs, h) \<Rightarrow>
          (let db_instance = get_db h in
           case get_collection h of
             Inl err \<Rightarrow> (Inl err, h)
           | Inr db_collection \<Rightarrow>
               (case get_model h of
                  Inl err \<Rightarrow> (Inl err, h)
                | Inr db_model \<Rightarrow>
                    (let chat = OpenAIChatCompletion ''gpt-3.5-turbo'' prompt;
                         db_instance = db_add chat db_instance;
                         h = h\<lparr>db := db_instance\<rparr>;
                         num_results = 5;
                         sources = like_find e db_instance db_collection
                                     (''pymongo-docs-'' @ model_identifier db_model)
                                     question num_results
                     in case chat_predict e prompt question (map doc_text sources) of
                          Inl err \<Rightarrow> (Inl err, h)
                        | Inr output \<Rightarrow>
                            (let links = str_join newline
                                   (map (\<lambda>(i, r). ''['' @ str_nat (i + 1) @ ''] Page '' @ str_nat (doc_page r))
                                      (List.enumerate 0 sources));
                                 refs = str_join newline (map doc_text sources);
                                 ref_url = str_join newline (map doc_url sources)
                             in (Inr (output, links, refs, ref_url), h))))))"

text \<open>
  The script's body: the two inputs are read, and the answer is computed and rendered
  only under \<open>if pdf_urls and question\<close> (a non-empty list and a non-empty string).
  \<open>None\<close> is the script rendering no answer and calling nothing.
\<close>

definition main ::
  "env \<Rightarrow> (nat \<Rightarrow> nat) \<Rightarrow> PDFDocumentHandler \<Rightarrow> string \<Rightarrow> string \<Rightarrow>
   ((error + string \<times> string \<times> string \<times> string) \<times> PDFDocumentHandler) option" where
  "main e rnd handler pdf_urls_input question =
     (let pdf_urls = str_split (CHR 0x0A) pdf_urls_input
      in if pdf_urls \<noteq> [] \<and> question \<noteq> []
         then Some (get_answer_from_pdf e rnd handler pdf_urls question)
         else None)"

section \<open>A concrete environment\<close>

text \<open>
  Four locations: a two-page document, a one-page document, a location answered with
  status 300 and a body, and a location answered with status 404. Any other location,
  the empty string among them, makes \<open>requests.get\<close> raise. The chunker gives one chunk
  per non-empty page, and the store's search returns the first \<open>n\<close> documents of the
  collection, scored by their page number.
\<close>

definition url_a :: string where "url_a = ''http://a/one.pdf''"
definition url_b :: string where "url_b = ''http://b/two.pdf''"
definition url_c :: string where "url_c = ''http://c/choices''"
definition url_d :: string where "url_d = ''http://d/missing''"

definition example_get :: "string \<Rightarrow> http_outcome" where
  "example_get u =
     (if u = url_a then Response 200 ''A''
      else if u = url_b then Response 200 ''B''
      else if u = url_c then Response 300 ''C''
      else if u = url_d then Response 404 ''not found''
      else RequestFailed)"

definition example_open :: "bytes \<Rightarrow> string list option" where
  "example_open b =
     (if b = ''A'' then Some [''alpha'', ''beta'']
      else if b = ''B'' then Some [''gamma'']
      else None)"

definition example_splitter :: "string \<Rightarrow> string list" where
  "example_splitter t = (if t = [] then [] else [t])"

definition with_score :: "chunk_record \<Rightarrow> search_result" where
  "with_score r =
     \<lparr>doc_text = doc_text r, doc_page = doc_page r, doc_url = doc_url r,
      score = real (doc_page r)\<rparr>"

definition example_search ::
  "Datalayer \<Rightarrow> string \<Rightarrow> string \<Rightarrow> string \<Rightarrow> nat \<Rightarrow> search_result list" where
  "example_search d c i q n = take n (map with_score (find_all d c))"

definition empty_db :: Datalayer where
  "empty_db = \<lparr>components = [], collections = Map.empty\<rparr>"

definition example_env :: env where
  "example_env =
     \<lparr>superduper = (\<lambda>uri store. empty_db),
      requests_get = example_get,
      fitz_open = example_open,
      create_documents = example_splitter,
      like_find = example_search,
      chat_predict = (\<lambda>p q ctx. Inr ''answer'')\<rparr>"

definition example_handler :: PDFDocumentHandler where
  "example_handler = init example_env ''mongomock://test'' ''./data/''"

text \<open>Two random sources: every draw 0 (the letter a), every draw 1 (the letter b).\<close>

definition rnd_a :: "nat \<Rightarrow> nat" where "rnd_a i = 0"
definition rnd_b :: "nat \<Rightarrow> nat" where "rnd_b i = 1"

section \<open>Extraction and chunking\<close>

lemma extract_pages_append:
  "extract_pages ps acc = acc @ map (\<lambda>(n, t). (t, n)) ps"
  by (induction ps arbitrary: acc) auto

lemma extract_pages_fst:
  "map fst (extract_pages (List.enumerate n doc) []) = doc"
  by (simp add: extract_pages_append comp_def case_prod_unfold)

lemma extract_pages_snd:
  "map snd (extract_pages (List.enumerate n doc) []) = [n..<n + length doc]"
  by (simp add: extract_pages_append comp_def case_prod_unfold)

lemma extract_pages_length:
  "length (extract_pages ps acc) = length acc + length ps"
  by (simp add: extract_pages_append)

text \<open>
  C7. When the download succeeds and the bytes open as a document of \<open>n\<close> pages,
  \<open>extract_text_with_page_numbers_from_url\<close> returns exactly \<open>n\<close> pairs: the page texts in
  order, numbered \<open>1, 2, ..., n\<close>.
\<close>

theorem extract_page_numbers_contiguous:
  assumes "download_pdf e pdf_url = Inr pdf_bytes"
    and "fitz_open e pdf_bytes = Some doc"
  shows "\<exists>ps. extract_text_with_page_numbers_from_url e pdf_url = Inr ps
           \<and> length ps = length doc
           \<and> map snd ps = [1..<Suc (length doc)]
           \<and> map fst ps = doc"
  using assms
  by (simp add: extract_text_with_page_numbers_from_url_def extract_pages_fst
      extract_pages_snd extract_pages_length)

theorem extract_page_numbers_contiguous_witness:
  "download_pdf example_env url_a = Inr ''A''
   \<and> fitz_open example_env ''A'' = Some [''alpha'', ''beta'']
   \<and> (\<exists>ps. extract_text_with_page_numbers_from_url example_env url_a = Inr ps
           \<and> length ps = length [''alpha'', ''beta'']
           \<and> map snd ps = [1..<Suc (length [''alpha'', ''beta''])]
           \<and> map fst ps = [''alpha'', ''beta''])"
proof -
  have d: "download_pdf example_env url_a = Inr ''A''"
    by (simp add: download_pdf_def example_env_def example_get_def raise_for_status_def)
  have f: "fitz_open example_env ''A'' = Some [''alpha'', ''beta'']"
    by (simp add: example_env_def example_open_def)
  from extract_page_numbers_contiguous [OF d f] d f show ?thesis by blast
qed

lemma chunk_pages_append:
  "chunk_pages sp atm acc =
     acc @ concat (map (\<lambda>(t, p). map (\<lambda>chunk. (chunk, p)) (sp t)) atm)"
  by (induction atm arbitrary: acc) auto

lemma chunk_text_concat:
  "chunk_text h atm url =
     concat (map (\<lambda>(t, p). map (\<lambda>chunk. \<lparr>doc_text = chunk, doc_page = p, doc_url = url\<rparr>)
                               (text_splitter h t)) atm)"
  by (simp add: chunk_text_def chunk_pages_append map_concat comp_def case_prod_unfold)

text \<open>
  C8. \<open>chunk_text\<close> gives, page after page, one record for each chunk that the splitter
  makes of that page's text alone, tagged with that page's number and with the one URL
  passed in. So every record carries the given URL and comes from one \<open>(text, page)\<close>
  pair of the input: its page number is that pair's, and its text is a chunk of that
  pair's text.
\<close>

theorem chunk_text_one_page_each:
  "chunk_text h atm url =
     concat (map (\<lambda>(t, p). map (\<lambda>chunk. \<lparr>doc_text = chunk, doc_page = p, doc_url = url\<rparr>)
                               (text_splitter h t)) atm)
   \<and> (\<forall>r \<in> set (chunk_text h atm url).
         doc_url r = url \<and>
         (\<exists>(t, p) \<in> set atm. doc_page r = p \<and> doc_text r \<in> set (text_splitter h t)))"
  by (auto simp: chunk_text_concat)

theorem chunk_text_one_page_each_witness:
  "\<lparr>doc_text = ''beta'', doc_page = 2, doc_url = url_a\<rparr>
     \<in> set (chunk_text example_handler [(''alpha'', 1), (''beta'', 2)] url_a)
   \<and> doc_url \<lparr>doc_text = ''beta'', doc_page = 2, doc_url = url_a\<rparr> = url_a
   \<and> (\<exists>(t, p) \<in> set [(''alpha'', 1), (''beta'', 2::nat)].
         doc_page \<lparr>doc_text = ''beta'', doc_page = 2, doc_url = url_a\<rparr> = p
         \<and> doc_text \<lparr>doc_text = ''beta'', doc_page = 2, doc_url = url_a\<rparr>
             \<in> set (text_splitter example_handler t))"
proof -
  have mem: "\<lparr>doc_text = ''beta'', doc_page = 2, doc_url = url_a\<rparr>
     \<in> set (chunk_text example_handler [(''alpha'', 1), (''beta'', 2)] url_a)"
    by (simp add: chunk_text_def example_handler_def init_def example_env_def
        example_splitter_def)
  from chunk_text_one_page_each [of example_handler "[(''alpha'', 1), (''beta'', 2)]" url_a]
  have "\<forall>r \<in> set (chunk_text example_handler [(''alpha'', 1), (''beta'', 2)] url_a).
         doc_url r = url_a \<and>
         (\<exists>(t, p) \<in> set [(''alpha'', 1), (''beta'', 2)].
            doc_page r = p \<and> doc_text r \<in> set (text_splitter example_handler t))"
    by (rule conjunct2)
  with mem show ?thesis by blast
qed

section \<open>The handler's attributes\<close>

text \<open>
  What \<open>process_pdf\<close> leaves in the two attributes. The model takes the loading of the
  sentence transformer in \<open>initialize_model\<close> as not raising, so \<open>model\<close> is assigned
  in every run of the model; in the source that holds for the runs in which the
  loading succeeds.
\<close>

lemma process_pdf_state:
  "doc_collection (snd (process_pdf e rnd urls h)) = Some (random_choices ascii_lowercase 7 rnd)
   \<and> model (snd (process_pdf e rnd urls h)) = Some initialize_model"
  by (simp add: process_pdf_def set_collection_name_def add_vector_index_def
      insert_documents_def Let_def split: sum.splits option.splits)

text \<open>
  C10. On a handler fresh from \<open>__init__\<close>, \<open>get_collection\<close>, \<open>get_model\<close> and
  \<open>query_documents\<close> raise \<open>AttributeError\<close>: neither attribute is assigned yet.
  \<open>doc_collection\<close> is assigned by the first statement of \<open>process_pdf\<close>, so after a
  \<open>process_pdf\<close> call on the handler, whatever its outcome, \<open>get_collection\<close> returns
  the name drawn in that call.
\<close>

theorem fresh_handler_raises_AttributeError:
  "get_collection (init e uri path) = Inl AttributeError
   \<and> get_model (init e uri path) = Inl AttributeError
   \<and> query_documents e (init e uri path) search_term num_results = Inl AttributeError
   \<and> get_collection (snd (process_pdf e rnd pdf_urls (init e uri path)))
       = Inr (random_choices ascii_lowercase 7 rnd)"
  by (simp add: get_collection_def get_model_def query_documents_def init_def
      process_pdf_state)

section \<open>Runs on the concrete environment\<close>

lemma name_a: "random_choices ascii_lowercase 7 rnd_a = ''aaaaaaa''"
  by (simp add: random_choices_def ascii_lowercase_def rnd_a_def upt_rec [of _ "numeral _"])

lemma name_b: "random_choices ascii_lowercase 7 rnd_b = ''bbbbbbb''"
  by (simp add: random_choices_def ascii_lowercase_def rnd_b_def upt_rec [of _ "numeral _"])

lemmas run_defs =
  process_pdf_def set_collection_name_def
  add_vector_index_def vector_index_identifier_def initialize_model_def db_add_def
  extract_text_with_page_numbers_from_url_def download_pdf_def raise_for_status_def
  chunk_text_def insert_documents_def insert_many_def find_all_def enumerate_eq_zip
  name_a name_b example_handler_def init_def
  initialize_database_def example_env_def example_get_def example_open_def
  example_splitter_def empty_db_def url_a_def url_b_def url_c_def url_d_def

section \<open>Ingestion\<close>

text \<open>
  When the loop of \<open>process_pdf\<close> ends without an exception on a non-empty list, the
  variable \<open>chunks_with_pages\<close> holds the chunks of the last location and of no other:
  each iteration assigns the variable instead of extending it.
\<close>

lemma process_urls_last:
  "urls \<noteq> [] \<Longrightarrow> process_urls e h urls acc = Inr r \<Longrightarrow>
     \<exists>atm. extract_text_with_page_numbers_from_url e (last urls) = Inr atm
            \<and> r = Some (chunk_text h atm (last urls))"
proof (induction urls arbitrary: acc)
  case Nil
  then show ?case by simp
next
  case (Cons u us)
  show ?case
  proof (cases us)
    case Nil
    with Cons.prems show ?thesis by (auto split: sum.splits)
  next
    case (Cons v vs)
    with Cons.prems Cons.IH show ?thesis by (auto split: sum.splits)
  qed
qed

text \<open>On an empty list the loop body never runs, and reading the variable raises.\<close>

lemma process_pdf_empty_list:
  "fst (process_pdf e rnd [] h) = Inl UnboundLocalError"
  by (simp add: process_pdf_def set_collection_name_def add_vector_index_def Let_def)

text \<open>
  C1. The claim is that the chunks of every supplied location reach the collection. On
  the two locations \<open>url_a\<close> (pages alpha and beta) and \<open>url_b\<close> (page gamma),
  \<open>process_pdf\<close> returns without an exception and the collection holds the one chunk of
  \<open>url_b\<close> only: nothing of \<open>url_a\<close> was inserted.
\<close>

theorem process_pdf_keeps_last_document_only:
  "fst (process_pdf example_env rnd_a [url_a, url_b] example_handler) = Inr ()
   \<and> get_collection (snd (process_pdf example_env rnd_a [url_a, url_b] example_handler))
       = Inr ''aaaaaaa''
   \<and> find_all (db (snd (process_pdf example_env rnd_a [url_a, url_b] example_handler)))
         ''aaaaaaa''
       = [\<lparr>doc_text = ''gamma'', doc_page = 1, doc_url = url_b\<rparr>]"
  by (simp add: run_defs get_collection_def)

section \<open>The vector index\<close>

text \<open>
  C3, as amended. The vector index that an ingestion run registers has the identifier
  \<open>pymongo-docs-\<close> followed by the model's identifier, that is
  \<open>pymongo-docs-all-MiniLM-L6-v2\<close>, whatever the collection; the collection appears in
  the listener's \<open>select\<close> only.
\<close>

theorem vector_index_identifier_same_for_every_run:
  "last (components (db (snd (process_pdf e rnd pdf_urls h))))
     = VectorIndex ''pymongo-docs-all-MiniLM-L6-v2''
         \<lparr>select = random_choices ascii_lowercase 7 rnd, key = ''text'',
          listener_model = initialize_model, max_chunk_size = 1000\<rparr>"
  by (simp add: process_pdf_def set_collection_name_def add_vector_index_def
      vector_index_identifier_def initialize_model_def db_add_def insert_documents_def
      insert_many_def Let_def split: sum.splits option.splits)

text \<open>
  C3 as stated fails: two runs with the distinct collections \<open>aaaaaaa\<close> and \<open>bbbbbbb\<close>
  register indexes with the same identifier.
\<close>

theorem index_identifier_shared_counterexample:
  "get_collection (snd (process_pdf example_env rnd_a [url_a] example_handler))
     = Inr ''aaaaaaa''
   \<and> get_collection (snd (process_pdf example_env rnd_b [url_a] example_handler))
     = Inr ''bbbbbbb''
   \<and> component_identifier
        (last (components (db (snd (process_pdf example_env rnd_a [url_a] example_handler)))))
     = component_identifier
        (last (components (db (snd (process_pdf example_env rnd_b [url_a] example_handler)))))"
  by (simp add: run_defs get_collection_def)

section \<open>The collection name\<close>

lemma distinct_ascii_lowercase: "distinct ascii_lowercase"
  by (simp add: ascii_lowercase_def)

lemma length_ascii_lowercase: "length ascii_lowercase = 26"
  by (simp add: ascii_lowercase_def)

lemma random_choices_eq_iff:
  assumes "\<forall>i<k. r1 i < length p" and "\<forall>i<k. r2 i < length p" and "distinct p"
  shows "random_choices p k r1 = random_choices p k r2 \<longleftrightarrow> (\<forall>i<k. r1 i = r2 i)"
  using assms by (auto simp: random_choices_def nth_eq_iff_index_eq)

text \<open>
  C4, as amended. \<open>set_collection_name\<close> names the collection with the seven lowercase
  letters that the random source draws, and compares the name with nothing: it does not
  depend on the handler or on the database. Two runs get the same identifier exactly
  when their seven draws coincide.
\<close>

theorem collection_name_determined_by_draws:
  assumes "\<forall>i<7. r1 i < 26" and "\<forall>i<7. r2 i < 26"
  shows "get_collection (set_collection_name r1 h1) = Inr (random_choices ascii_lowercase 7 r1)
       \<and> length (random_choices ascii_lowercase 7 r1) = 7
       \<and> set (random_choices ascii_lowercase 7 r1) \<subseteq> set ascii_lowercase
       \<and> (get_collection (set_collection_name r1 h1) = get_collection (set_collection_name r2 h2)
            \<longleftrightarrow> (\<forall>i<7. r1 i = r2 i))"
proof -
  have eq: "random_choices ascii_lowercase 7 r1 = random_choices ascii_lowercase 7 r2
            \<longleftrightarrow> (\<forall>i<7. r1 i = r2 i)"
    using assms
    by (intro random_choices_eq_iff)
      (simp_all add: length_ascii_lowercase distinct_ascii_lowercase)
  have sub: "set (random_choices ascii_lowercase 7 r1) \<subseteq> set ascii_lowercase"
    using assms(1) by (auto simp: random_choices_def length_ascii_lowercase)
  show ?thesis using eq sub
    by (simp add: get_collection_def set_collection_name_def random_choices_def)
qed

theorem collection_name_determined_by_draws_witness:
  "get_collection (set_collection_name rnd_a example_handler) = Inr ''aaaaaaa''
   \<and> length ''aaaaaaa'' = 7
   \<and> get_collection (set_collection_name rnd_a example_handler)
       \<noteq> get_collection (set_collection_name rnd_b example_handler)"
proof -
  have a: "\<forall>i<7. rnd_a i < 26" by (simp add: rnd_a_def)
  have b: "\<forall>i<7. rnd_b i < 26" by (simp add: rnd_b_def)
  have ne: "\<not> (\<forall>i<7. rnd_a i = rnd_b i)"
    by (simp add: rnd_a_def rnd_b_def) (rule exI [of _ 0], simp)
  note t = collection_name_determined_by_draws [OF a b, of example_handler example_handler]
  from t have g: "get_collection (set_collection_name rnd_a example_handler) = Inr ''aaaaaaa''"
    by (simp only: name_a)
  from t ne have d: "get_collection (set_collection_name rnd_a example_handler)
       \<noteq> get_collection (set_collection_name rnd_b example_handler)"
    by blast
  from g d show ?thesis by simp
qed

text \<open>
  C4 as stated fails: a second ingestion run on the same handler, the random source
  drawing the same letters again, allocates the identifier of the first run.
\<close>

theorem collection_name_reused_counterexample:
  "get_collection (snd (process_pdf example_env rnd_a [url_a] example_handler))
   = get_collection (snd (process_pdf example_env rnd_a [url_b]
        (snd (process_pdf example_env rnd_a [url_a] example_handler))))"
  by (simp add: get_collection_def process_pdf_state)

section \<open>Fetching\<close>

lemma process_urls_fails:
  "u \<in> set urls \<Longrightarrow> extract_text_with_page_numbers_from_url e u = Inl err \<Longrightarrow>
     \<exists>err'. process_urls e h urls acc = Inl err'"
  by (induction urls arbitrary: acc) (auto split: sum.splits)

lemma process_pdf_fails_collections:
  "fst (process_pdf e rnd urls h) = Inl err \<Longrightarrow>
     collections (db (snd (process_pdf e rnd urls h))) = collections (db h)"
  by (auto simp: process_pdf_def set_collection_name_def add_vector_index_def db_add_def
      insert_documents_def Let_def split: sum.splits option.splits)

text \<open>
  C5, as amended. When the fetch of a location answers with a status 4XX or 5XX,
  \<open>download_pdf\<close> raises \<open>HTTPError\<close>, and a \<open>process_pdf\<close> call whose list holds that
  location ends with an exception and inserts nothing. With any other status, the 2xx
  ones among them, \<open>download_pdf\<close> returns the body of the response.
\<close>

theorem download_pdf_status:
  assumes "requests_get e pdf_url = Response status_code content"
  shows "(400 \<le> status_code \<and> status_code < 600 \<longrightarrow>
            download_pdf e pdf_url = Inl (HTTPError status_code)
            \<and> (pdf_url \<in> set pdf_urls \<longrightarrow>
                 (\<exists>err. fst (process_pdf e rnd pdf_urls h) = Inl err)
                 \<and> collections (db (snd (process_pdf e rnd pdf_urls h))) = collections (db h)))
       \<and> (\<not> (400 \<le> status_code \<and> status_code < 600) \<longrightarrow> download_pdf e pdf_url = Inr content)
       \<and> (200 \<le> status_code \<and> status_code < 300 \<longrightarrow> download_pdf e pdf_url = Inr content)"
proof -
  have ok: "\<not> (400 \<le> status_code \<and> status_code < 600) \<Longrightarrow> download_pdf e pdf_url = Inr content"
    using assms by (simp add: download_pdf_def raise_for_status_def)
  have bad: "download_pdf e pdf_url = Inl (HTTPError status_code)"
    if "400 \<le> status_code \<and> status_code < 600"
    using assms that by (simp add: download_pdf_def raise_for_status_def)
  have abort: "(\<exists>err. fst (process_pdf e rnd pdf_urls h) = Inl err)
       \<and> collections (db (snd (process_pdf e rnd pdf_urls h))) = collections (db h)"
    if s: "400 \<le> status_code \<and> status_code < 600" and m: "pdf_url \<in> set pdf_urls"
  proof -
    have "extract_text_with_page_numbers_from_url e pdf_url = Inl (HTTPError status_code)"
      using bad [OF s] by (simp add: extract_text_with_page_numbers_from_url_def)
    from process_urls_fails [OF m this]
    have "\<And>h' acc r. process_urls e h' pdf_urls acc \<noteq> Inr r"
      by (metis sum.distinct(1))
    then have "\<exists>err. fst (process_pdf e rnd pdf_urls h) = Inl err"
      by (auto simp: process_pdf_def set_collection_name_def add_vector_index_def Let_def
          split: sum.splits option.splits)
    then show ?thesis using process_pdf_fails_collections by blast
  qed
  show ?thesis using ok bad abort by auto
qed

theorem download_pdf_status_witness:
  "requests_get example_env url_d = Response 404 ''not found''
   \<and> (400::nat) \<le> 404 \<and> (404::nat) < 600
   \<and> url_d \<in> set [url_a, url_d]
   \<and> download_pdf example_env url_d = Inl (HTTPError 404)
   \<and> (\<exists>err. fst (process_pdf example_env rnd_a [url_a, url_d] example_handler) = Inl err)
   \<and> collections (db (snd (process_pdf example_env rnd_a [url_a, url_d] example_handler)))
       = collections (db example_handler)
   \<and> requests_get example_env url_a = Response 200 ''A''
   \<and> \<not> ((400::nat) \<le> 200 \<and> (200::nat) < 600)
   \<and> download_pdf example_env url_a = Inr ''A''"
proof -
  have d: "requests_get example_env url_d = Response 404 ''not found''"
    by (simp add: example_env_def example_get_def url_a_def url_b_def url_c_def url_d_def)
  have a: "requests_get example_env url_a = Response 200 ''A''"
    by (simp add: example_env_def example_get_def)
  have m: "url_d \<in> set [url_a, url_d]" by simp
  from download_pdf_status [OF d, of "[url_a, url_d]" rnd_a example_handler]
    download_pdf_status [OF a, of "[]" rnd_a example_handler] d a m
  show ?thesis by simp
qed

text \<open>
  C5 as stated fails: the status 300 is not a 2xx status, and \<open>download_pdf\<close> returns
  the body all the same.
\<close>

theorem download_pdf_non_2xx_counterexample:
  "requests_get example_env url_c = Response 300 ''C''
   \<and> \<not> ((200::nat) \<le> 300 \<and> (300::nat) < 300)
   \<and> download_pdf example_env url_c = Inr ''C''"
  by (simp add: download_pdf_def raise_for_status_def example_env_def example_get_def
      url_a_def url_b_def url_c_def)

section \<open>Searching\<close>

lemma sorted_wrt_score_sort_key:
  "sorted_wrt (\<lambda>a b. score b \<le> score a)
     (sort_key (\<lambda>r. - score r) (rs :: search_result list))"
proof -
  have "sorted (map (\<lambda>r. - score r) (sort_key (\<lambda>r. - score r) rs))"
    by (rule sorted_sort_key)
  then show ?thesis by (simp add: sorted_map)
qed

text \<open>
  C6. The list that \<open>query_documents\<close> returns is sorted by non-increasing score, and,
  the store answering a search for \<open>k\<close> neighbours with at most \<open>k\<close> results, it has at
  most \<open>k\<close> results: sorting neither adds nor drops one.
\<close>

theorem query_documents_at_most_k_sorted:
  assumes "query_documents e h search_term k = Inr rs"
    and "\<forall>d c i. length (like_find e d c i search_term k) \<le> k"
  shows "length rs \<le> k \<and> sorted_wrt (\<lambda>a b. score b \<le> score a) rs"
  using assms
  by (auto simp: query_documents_def sorted_wrt_score_sort_key split: option.splits)

theorem query_documents_at_most_k_sorted_witness:
  "query_documents example_env
     (snd (process_pdf example_env rnd_a [url_a] example_handler)) ''q'' 2
     = Inr [\<lparr>doc_text = ''beta'', doc_page = 2, doc_url = url_a, score = 2\<rparr>,
            \<lparr>doc_text = ''alpha'', doc_page = 1, doc_url = url_a, score = 1\<rparr>]
   \<and> (\<forall>d c i. length (like_find example_env d c i ''q'' 2) \<le> 2)
   \<and> length [\<lparr>doc_text = ''beta'', doc_page = 2, doc_url = url_a, score = 2\<rparr>,
            \<lparr>doc_text = ''alpha'', doc_page = 1, doc_url = url_a, score = 1\<rparr>] \<le> (2::nat)
   \<and> sorted_wrt (\<lambda>a b. score b \<le> score a)
        [\<lparr>doc_text = ''beta'', doc_page = 2, doc_url = url_a, score = 2\<rparr>,
         \<lparr>doc_text = ''alpha'', doc_page = 1, doc_url = url_a, score = 1\<rparr>]"
proof -
  have q: "query_documents example_env
     (snd (process_pdf example_env rnd_a [url_a] example_handler)) ''q'' 2
     = Inr [\<lparr>doc_text = ''beta'', doc_page = 2, doc_url = url_a, score = 2\<rparr>,
            \<lparr>doc_text = ''alpha'', doc_page = 1, doc_url = url_a, score = 1\<rparr>]"
    by (simp add: query_documents_def run_defs example_search_def with_score_def)
  have c: "\<forall>d c i. length (like_find example_env d c i ''q'' 2) \<le> 2"
    by (simp add: example_env_def example_search_def)
  from query_documents_at_most_k_sorted [OF q c] q c show ?thesis by simp
qed

text \<open>
  C2, as amended. \<open>get_relevant_docs\<close> calls \<open>query_documents\<close> without \<open>num_results\<close>,
  whose default is 1: after a successful ingestion it returns the sorted answer of a
  search for one neighbour in the run's collection, so at most one result when the
  store answers such a search with at most one.
\<close>

theorem get_relevant_docs_requests_one:
  assumes "fst (process_pdf e rnd pdf_list h) = Inr ()"
  shows "fst (get_relevant_docs e rnd pdf_list search_term h)
           = Inr (sort_key (\<lambda>r. - score r)
                    (like_find e (db (snd (process_pdf e rnd pdf_list h)))
                       (random_choices ascii_lowercase 7 rnd)
                       ''pymongo-docs-all-MiniLM-L6-v2'' search_term 1))
       \<and> ((\<forall>d c i. length (like_find e d c i search_term 1) \<le> 1) \<longrightarrow>
            (\<exists>rs. fst (get_relevant_docs e rnd pdf_list search_term h) = Inr rs
                  \<and> length rs \<le> 1))"
proof -
  obtain r h' where p: "process_pdf e rnd pdf_list h = (r, h')"
    by (cases "process_pdf e rnd pdf_list h")
  with assms have r: "r = Inr ()" by simp
  from p process_pdf_state [of e rnd pdf_list h]
  have st: "doc_collection h' = Some (random_choices ascii_lowercase 7 rnd)"
    "model h' = Some initialize_model" by simp_all
  have "fst (get_relevant_docs e rnd pdf_list search_term h)
           = Inr (sort_key (\<lambda>r. - score r)
                    (like_find e (db h') (random_choices ascii_lowercase 7 rnd)
                       ''pymongo-docs-all-MiniLM-L6-v2'' search_term 1))"
    using p r st
    by (simp add: get_relevant_docs_def query_documents_def
        query_documents_default_num_results_def vector_index_identifier_def
        initialize_model_def)
  with p show ?thesis by simp
qed

theorem get_relevant_docs_requests_one_witness:
  "fst (process_pdf example_env rnd_a [url_a] example_handler) = Inr ()
   \<and> (\<forall>d c i. length (like_find example_env d c i ''q'' 1) \<le> 1)
   \<and> fst (get_relevant_docs example_env rnd_a [url_a] ''q'' example_handler)
       = Inr [\<lparr>doc_text = ''alpha'', doc_page = 1, doc_url = url_a, score = 1\<rparr>]"
proof -
  have p: "fst (process_pdf example_env rnd_a [url_a] example_handler) = Inr ()"
    by (simp add: run_defs)
  have c: "\<forall>d c i. length (like_find example_env d c i ''q'' 1) \<le> 1"
    by (simp add: example_env_def example_search_def)
  have "like_find example_env (db (snd (process_pdf example_env rnd_a [url_a] example_handler)))
          (random_choices ascii_lowercase 7 rnd_a) ''pymongo-docs-all-MiniLM-L6-v2'' ''q'' 1
        = [\<lparr>doc_text = ''alpha'', doc_page = 1, doc_url = url_a, score = 1\<rparr>]"
    by (simp add: run_defs example_search_def with_score_def)
  with get_relevant_docs_requests_one [OF p, of "''q''"] p c show ?thesis by simp
qed

text \<open>
  C2 as stated fails: on a collection of two chunks, \<open>get_relevant_docs\<close> returns one
  result, where the search with \<open>k = 5\<close> returns both.
\<close>

theorem get_relevant_docs_five_counterexample:
  "fst (get_relevant_docs example_env rnd_a [url_a] ''q'' example_handler)
     = Inr [\<lparr>doc_text = ''alpha'', doc_page = 1, doc_url = url_a, score = 1\<rparr>]
   \<and> query_documents example_env
        (snd (get_relevant_docs example_env rnd_a [url_a] ''q'' example_handler)) ''q'' 5
     = Inr [\<lparr>doc_text = ''beta'', doc_page = 2, doc_url = url_a, score = 2\<rparr>,
            \<lparr>doc_text = ''alpha'', doc_page = 1, doc_url = url_a, score = 1\<rparr>]"
  by (simp add: get_relevant_docs_def query_documents_def
      query_documents_default_num_results_def run_defs example_search_def with_score_def)

section \<open>The script\<close>

lemma str_split_not_Nil: "str_split sep s \<noteq> []"
  by (induction s) (auto split: list.splits)

text \<open>With an empty question the script calls nothing.\<close>

lemma main_empty_question: "main e rnd h pdf_urls_input [] = None"
  by (simp add: main_def)

text \<open>
  With a question, the script always calls \<open>get_answer_from_pdf\<close>: the list that
  \<open>split\<close> returns is never empty, so the test of \<open>pdf_urls\<close> never fails.
\<close>

lemma main_calls:
  "question \<noteq> [] \<Longrightarrow>
     main e rnd h pdf_urls_input question
       = Some (get_answer_from_pdf e rnd h (str_split (CHR 0x0A) pdf_urls_input) question)"
  by (simp add: main_def str_split_not_Nil)

text \<open>
  C9. The claim is that an empty document-location input yields a no-op. With the input
  empty and a question asked, the script calls \<open>get_answer_from_pdf\<close> on the list of the
  one empty location, and the ingestion it attempts ends with the exception of the
  fetch.
\<close>

theorem main_empty_locations_attempts_ingestion:
  "main example_env rnd_a example_handler [] ''What?''
     = Some (get_answer_from_pdf example_env rnd_a example_handler [[]] ''What?'')
   \<and> fst (get_answer_from_pdf example_env rnd_a example_handler [[]] ''What?'')
     = Inl RequestException"
  by (simp add: main_def get_answer_from_pdf_def get_relevant_docs_def run_defs)

end
